theory Spec2Isabelle
  imports Complex_Main
begin

section \<open>BigQuery date and time primitives\<close>

text \<open>
  A BigQuery \<^verbatim>\<open>TIMESTAMP\<close> is an absolute instant with microsecond resolution; it is
  modelled as the number of microseconds since 1970-01-01 00:00:00 UTC.  A \<^verbatim>\<open>TIME\<close> is
  a time of day, modelled as microseconds since midnight.  A nullable \<^verbatim>\<open>TIME\<close> argument
  is a \<open>time option\<close>, \<open>None\<close> being SQL \<^verbatim>\<open>NULL\<close>.  Civil dates are day numbers since
  1970-01-01 (a Thursday).  The zone of the civil functions is an offset in
  microseconds: \<open>UTC\<close>, or the offset +05:30 of \<^verbatim>\<open>'Asia/Kolkata'\<close> (the zone has had
  no other offset since 1945).
\<close>

type_synonym timestamp = int
type_synonym time = int

definition UTC :: int where
  "UTC = 0"

definition Asia_Kolkata :: int where
  "Asia_Kolkata = 19800000000"

definition DATE :: "int \<Rightarrow> timestamp \<Rightarrow> int" where
  "DATE tz ts = (ts + tz) div 86400000000"

definition TIME_of :: "int \<Rightarrow> timestamp \<Rightarrow> time" where
  "TIME_of tz ts = (ts + tz) mod 86400000000"

text \<open>\<^verbatim>\<open>EXTRACT(DAYOFWEEK FROM ts)\<close>: 1 is Sunday, 2 is Monday, ..., 7 is Saturday.\<close>

definition DAYOFWEEK :: "int \<Rightarrow> timestamp \<Rightarrow> int" where
  "DAYOFWEEK tz ts = (DATE tz ts + 4) mod 7 + 1"

text \<open>\<^verbatim>\<open>TIME(h, m, s)\<close>.\<close>

definition TIME :: "int \<Rightarrow> int \<Rightarrow> int \<Rightarrow> time" where
  "TIME h m s = ((h * 60 + m) * 60 + s) * 1000000"

text \<open>
  \<^verbatim>\<open>TIMESTAMP_DIFF(e, s, SECOND)\<close>: the whole number of seconds between the two
  instants, truncated towards zero.
\<close>

definition TIMESTAMP_DIFF_SECOND :: "timestamp \<Rightarrow> timestamp \<Rightarrow> int" where
  "TIMESTAMP_DIFF_SECOND e s =
     (if s \<le> e then (e - s) div 1000000 else - ((s - e) div 1000000))"

section \<open>The working-seconds UDF\<close>

text \<open>
  The fourteen \<^verbatim>\<open>TIME\<close> parameters of \<^verbatim>\<open>calculate_working_seconds_sql\<close>, under the
  names the function gives them.
\<close>

record schedule =
  monday_start :: "time option"
  monday_end :: "time option"
  tuesday_start :: "time option"
  tuesday_end :: "time option"
  wednesday_start :: "time option"
  wednesday_end :: "time option"
  thursday_start :: "time option"
  thursday_end :: "time option"
  friday_start :: "time option"
  friday_end :: "time option"
  saturday_start :: "time option"
  saturday_end :: "time option"
  sunday_start :: "time option"
  sunday_end :: "time option"

text \<open>
  The guard of one weekday branch, after the test of the weekday number:
  \<^verbatim>\<open>d_start IS NOT NULL AND d_end IS NOT NULL AND NOT (d_start = TIME(0,0,0) AND d_end = TIME(0,0,0))\<close>.
  The oldest version of the function (second text of \<^verbatim>\<open>unnamed/part_001\<close>) has no
  closed-day conjunct; \<open>closed_check\<close> is \<open>False\<close> for it.
\<close>

definition day_configured :: "bool \<Rightarrow> time option \<Rightarrow> time option \<Rightarrow> bool" where
  "day_configured closed_check d_start d_end =
     (d_start \<noteq> None \<and> d_end \<noteq> None \<and>
      \<not> (closed_check \<and> d_start = Some (TIME 0 0 0) \<and> d_end = Some (TIME 0 0 0)))"

text \<open>
  The inner \<^verbatim>\<open>CASE\<close> of a weekday branch: zero when the response starts before or
  ends after the working hours, the whole span otherwise.  The result is a
  \<^verbatim>\<open>FLOAT64\<close> cast of an integer number of seconds, which is exact for every pair of
  BigQuery timestamps (below \<open>2^53\<close>), so it is kept as an integer.
\<close>

definition day_seconds :: "int \<Rightarrow> timestamp \<Rightarrow> timestamp \<Rightarrow> time \<Rightarrow> time \<Rightarrow> int" where
  "day_seconds tz start_timestamp end_timestamp d_start d_end =
     (if TIME_of tz start_timestamp < d_start \<or> TIME_of tz end_timestamp > d_end then 0
      else TIMESTAMP_DIFF_SECOND end_timestamp start_timestamp)"

definition working_seconds_udf ::
  "int \<Rightarrow> bool \<Rightarrow> timestamp \<Rightarrow> timestamp \<Rightarrow> schedule \<Rightarrow> int" where
  "working_seconds_udf tz closed_check start_timestamp end_timestamp S =
     (if start_timestamp \<ge> end_timestamp then 0
      else if DATE tz start_timestamp = DATE tz end_timestamp then
        (if DAYOFWEEK tz start_timestamp = 2
            \<and> day_configured closed_check (monday_start S) (monday_end S)
         then day_seconds tz start_timestamp end_timestamp
                (the (monday_start S)) (the (monday_end S))
         else if DAYOFWEEK tz start_timestamp = 3
            \<and> day_configured closed_check (tuesday_start S) (tuesday_end S)
         then day_seconds tz start_timestamp end_timestamp
                (the (tuesday_start S)) (the (tuesday_end S))
         else if DAYOFWEEK tz start_timestamp = 4
            \<and> day_configured closed_check (wednesday_start S) (wednesday_end S)
         then day_seconds tz start_timestamp end_timestamp
                (the (wednesday_start S)) (the (wednesday_end S))
         else if DAYOFWEEK tz start_timestamp = 5
            \<and> day_configured closed_check (thursday_start S) (thursday_end S)
         then day_seconds tz start_timestamp end_timestamp
                (the (thursday_start S)) (the (thursday_end S))
         else if DAYOFWEEK tz start_timestamp = 6
            \<and> day_configured closed_check (friday_start S) (friday_end S)
         then day_seconds tz start_timestamp end_timestamp
                (the (friday_start S)) (the (friday_end S))
         else if DAYOFWEEK tz start_timestamp = 7
            \<and> day_configured closed_check (saturday_start S) (saturday_end S)
         then day_seconds tz start_timestamp end_timestamp
                (the (saturday_start S)) (the (saturday_end S))
         else if DAYOFWEEK tz start_timestamp = 1
            \<and> day_configured closed_check (sunday_start S) (sunday_end S)
         then day_seconds tz start_timestamp end_timestamp
                (the (sunday_start S)) (the (sunday_end S))
         else 0)
      else 0)"

text \<open>The three texts of the function in the repository.\<close>

definition calculate_working_seconds_sql :: "timestamp \<Rightarrow> timestamp \<Rightarrow> schedule \<Rightarrow> int" where
  "calculate_working_seconds_sql = working_seconds_udf UTC True"

definition calculate_working_seconds_sql_kolkata ::
  "timestamp \<Rightarrow> timestamp \<Rightarrow> schedule \<Rightarrow> int" where
  "calculate_working_seconds_sql_kolkata = working_seconds_udf Asia_Kolkata True"

definition calculate_working_seconds_sql_v0 ::
  "timestamp \<Rightarrow> timestamp \<Rightarrow> schedule \<Rightarrow> int" where
  "calculate_working_seconds_sql_v0 = working_seconds_udf UTC False"

text \<open>
  The pair of parameters a weekday number selects, in the order of the branches of the
  function (2 is Monday, ..., 7 is Saturday, 1 is Sunday).
\<close>

definition day_window :: "schedule \<Rightarrow> int \<Rightarrow> time option \<times> time option" where
  "day_window S dow =
     (if dow = 2 then (monday_start S, monday_end S)
      else if dow = 3 then (tuesday_start S, tuesday_end S)
      else if dow = 4 then (wednesday_start S, wednesday_end S)
      else if dow = 5 then (thursday_start S, thursday_end S)
      else if dow = 6 then (friday_start S, friday_end S)
      else if dow = 7 then (saturday_start S, saturday_end S)
      else (sunday_start S, sunday_end S))"

text \<open>A schedule whose fourteen times are all \<^verbatim>\<open>00:00:00\<close>.\<close>

definition all_days_closed :: "schedule \<Rightarrow> bool" where
  "all_days_closed S =
     (monday_start S = Some (TIME 0 0 0) \<and> monday_end S = Some (TIME 0 0 0) \<and>
      tuesday_start S = Some (TIME 0 0 0) \<and> tuesday_end S = Some (TIME 0 0 0) \<and>
      wednesday_start S = Some (TIME 0 0 0) \<and> wednesday_end S = Some (TIME 0 0 0) \<and>
      thursday_start S = Some (TIME 0 0 0) \<and> thursday_end S = Some (TIME 0 0 0) \<and>
      friday_start S = Some (TIME 0 0 0) \<and> friday_end S = Some (TIME 0 0 0) \<and>
      saturday_start S = Some (TIME 0 0 0) \<and> saturday_end S = Some (TIME 0 0 0) \<and>
      sunday_start S = Some (TIME 0 0 0) \<and> sunday_end S = Some (TIME 0 0 0))"

subsection \<open>Concrete instants and schedules\<close>

text \<open>
  The instant at \<open>h:m:s\<close> UTC on day number \<open>d\<close>.  Day 20094 is Monday 2025-01-06,
  day 20092 is Saturday 2025-01-04.
\<close>

definition at_utc :: "int \<Rightarrow> int \<Rightarrow> int \<Rightarrow> int \<Rightarrow> timestamp" where
  "at_utc d h m s = d * 86400000000 + TIME h m s"

text \<open>
  Monday to Friday 09:00 to 18:00, Saturday and Sunday closed (\<^verbatim>\<open>00:00:00\<close> twice, which
  is also what the merge statements pass for a missing day).
\<close>

definition weekdays_9_to_18 :: schedule where
  "weekdays_9_to_18 =
     \<lparr>monday_start = Some (TIME 9 0 0), monday_end = Some (TIME 18 0 0),
      tuesday_start = Some (TIME 9 0 0), tuesday_end = Some (TIME 18 0 0),
      wednesday_start = Some (TIME 9 0 0), wednesday_end = Some (TIME 18 0 0),
      thursday_start = Some (TIME 9 0 0), thursday_end = Some (TIME 18 0 0),
      friday_start = Some (TIME 9 0 0), friday_end = Some (TIME 18 0 0),
      saturday_start = Some (TIME 0 0 0), saturday_end = Some (TIME 0 0 0),
      sunday_start = Some (TIME 0 0 0), sunday_end = Some (TIME 0 0 0)\<rparr>"

definition closed_all_week :: schedule where
  "closed_all_week =
     \<lparr>monday_start = Some (TIME 0 0 0), monday_end = Some (TIME 0 0 0),
      tuesday_start = Some (TIME 0 0 0), tuesday_end = Some (TIME 0 0 0),
      wednesday_start = Some (TIME 0 0 0), wednesday_end = Some (TIME 0 0 0),
      thursday_start = Some (TIME 0 0 0), thursday_end = Some (TIME 0 0 0),
      friday_start = Some (TIME 0 0 0), friday_end = Some (TIME 0 0 0),
      saturday_start = Some (TIME 0 0 0), saturday_end = Some (TIME 0 0 0),
      sunday_start = Some (TIME 0 0 0), sunday_end = Some (TIME 0 0 0)\<rparr>"

section \<open>The schedule resolver\<close>

text \<open>
  A row of the MySQL table \<^verbatim>\<open>working_hours\<close> as the JavaScript code reads it.  The column
  \<^verbatim>\<open>type\<close> is the field \<open>wh_type\<close>.  The built-in default entries are object literals
  without \<^verbatim>\<open>type\<close> and \<^verbatim>\<open>type_id\<close>: an absent property is \<open>None\<close>.  Identifiers are
  integers; \<^verbatim>\<open>parseInt\<close> of an integer identifier, or of its decimal string, is that
  integer.
\<close>

record working_hours_row =
  wh_type :: "string option"
  type_id :: "int option"
  week_day :: string
  start_time :: string
  end_time :: string
  timezone_offset :: "int option"

text \<open>A row of \<^verbatim>\<open>callyzer_user_mappings\<close>: the binding of a user to a team and an organisation.\<close>

record user_mapping =
  user_id :: int
  team_id :: int
  org_id :: int

text \<open>The object \<^verbatim>\<open>{ source, workingHours }\<close> that \<^verbatim>\<open>getWorkingHoursConfig\<close> returns.\<close>

record working_hours_config =
  source :: string
  workingHours :: "working_hours_row list"

text \<open>
  The object \<^verbatim>\<open>{ user_id, org_id, team_id, type, working_hours }\<close> that
  \<^verbatim>\<open>getAllWorkingHoursConfig\<close> pushes for a binding; its \<^verbatim>\<open>type\<close> is the field \<open>cfg_type\<close>.
\<close>

record resolved_config = user_mapping +
  cfg_type :: string
  working_hours :: "working_hours_row list"

definition default_entry :: "string \<Rightarrow> int option \<Rightarrow> working_hours_row" where
  "default_entry d tzo =
     \<lparr>wh_type = None, type_id = None, week_day = d, start_time = ''09:00:00'',
      end_time = ''18:00:00'', timezone_offset = tzo\<rparr>"

definition default_working_hours :: "int option \<Rightarrow> working_hours_row list" where
  "default_working_hours tzo =
     [default_entry ''monday'' tzo, default_entry ''tuesday'' tzo,
      default_entry ''wednesday'' tzo, default_entry ''thursday'' tzo,
      default_entry ''friday'' tzo, default_entry ''saturday'' tzo,
      default_entry ''sunday'' tzo]"

text \<open>
  \<^verbatim>\<open>BigQueryService.getWorkingHoursConfig(userId, orgId)\<close> (\<^verbatim>\<open>unnamed/part_000\<close>).  The
  two tables it reads are parameters (its local \<^verbatim>\<open>workingHours\<close> is \<open>allWorkingHours\<close>
  here).  It reads the user mapping and never uses it; the filter for the team entries
  compares \<^verbatim>\<open>type_id\<close> with \<^verbatim>\<open>parseInt(userId)\<close>.
\<close>

definition getWorkingHoursConfig ::
  "working_hours_row list \<Rightarrow> user_mapping list \<Rightarrow> int \<Rightarrow> int \<Rightarrow> working_hours_config" where
  "getWorkingHoursConfig allWorkingHours userMapping userId orgId =
     (let selfHours = filter (\<lambda>wh. wh_type wh = Some ''self'' \<and> type_id wh = Some userId)
                        allWorkingHours;
          teamHours = filter (\<lambda>wh. wh_type wh = Some ''team'' \<and> type_id wh = Some userId)
                        allWorkingHours;
          orgHours = filter (\<lambda>wh. wh_type wh = Some ''org'' \<and> type_id wh = Some orgId)
                       allWorkingHours
      in if length selfHours > 0 then \<lparr>source = ''self'', workingHours = selfHours\<rparr>
         else if length teamHours > 0 then \<lparr>source = ''team'', workingHours = teamHours\<rparr>
         else if length orgHours > 0 then \<lparr>source = ''org'', workingHours = orgHours\<rparr>
         else \<lparr>source = ''default'', workingHours = default_working_hours None\<rparr>)"

text \<open>
  The body of the loop of \<^verbatim>\<open>AnalyticsService.getAllWorkingHoursConfig\<close> (second text of
  \<^verbatim>\<open>README.md\<close>) for one binding that is not skipped: the object it pushes.
\<close>

definition resolve_binding :: "working_hours_row list \<Rightarrow> user_mapping \<Rightarrow> resolved_config" where
  "resolve_binding allWorkingHours userMapping =
     (let selfHours = filter (\<lambda>wh. wh_type wh = Some ''self''
                                  \<and> type_id wh = Some (user_id userMapping)) allWorkingHours
      in if length selfHours > 0
         then \<lparr>user_id = user_id userMapping, team_id = team_id userMapping,
               org_id = org_id userMapping, cfg_type = ''self'', working_hours = selfHours\<rparr>
         else
           (let teamHours = filter (\<lambda>wh. wh_type wh = Some ''team''
                                        \<and> type_id wh = Some (team_id userMapping))
                              allWorkingHours
            in if length teamHours > 0
               then \<lparr>user_id = user_id userMapping, team_id = team_id userMapping,
                     org_id = org_id userMapping, cfg_type = ''team'',
                     working_hours = teamHours\<rparr>
               else
                 (let orgHours = filter (\<lambda>wh. wh_type wh = Some ''org''
                                             \<and> type_id wh = Some (org_id userMapping))
                                   allWorkingHours
                  in if length orgHours > 0
                     then \<lparr>user_id = user_id userMapping, team_id = team_id userMapping,
                           org_id = org_id userMapping, cfg_type = ''org'',
                           working_hours = orgHours\<rparr>
                     else \<lparr>user_id = user_id userMapping, team_id = team_id userMapping,
                           org_id = org_id userMapping, cfg_type = ''default'',
                           working_hours = default_working_hours (Some 0)\<rparr>)))"

text \<open>
  The loop over the bindings, with its two accumulators: \<open>results\<close> and the set
  \<open>processedUsers\<close> of the user identifiers already seen (a later binding of such a
  user is skipped).
\<close>

fun getAll_loop ::
  "working_hours_row list \<Rightarrow> user_mapping list \<Rightarrow> resolved_config list \<Rightarrow> int set
     \<Rightarrow> resolved_config list" where
  "getAll_loop allWorkingHours [] results processedUsers = results"
| "getAll_loop allWorkingHours (userMapping # rest) results processedUsers =
     (if user_id userMapping \<in> processedUsers
      then getAll_loop allWorkingHours rest results processedUsers
      else getAll_loop allWorkingHours rest
             (results @ [resolve_binding allWorkingHours userMapping])
             (insert (user_id userMapping) processedUsers))"

definition getAllWorkingHoursConfig ::
  "working_hours_row list \<Rightarrow> user_mapping list \<Rightarrow> resolved_config list" where
  "getAllWorkingHoursConfig allWorkingHours userMappings =
     getAll_loop allWorkingHours userMappings [] {}"

text \<open>The self-scope entries of the table, whoever they belong to.\<close>

definition self_entries :: "working_hours_row list \<Rightarrow> working_hours_row list" where
  "self_entries allWorkingHours = filter (\<lambda>wh. wh_type wh = Some ''self'') allWorkingHours"

text \<open>A table with one entry, for team 9, and the binding of user 5 to team 9 and organisation 2.\<close>

definition team9_monday :: working_hours_row where
  "team9_monday =
     \<lparr>wh_type = Some ''team'', type_id = Some 9, week_day = ''monday'',
      start_time = ''10:00:00'', end_time = ''12:00:00'', timezone_offset = Some 0\<rparr>"

definition user5_team9_org2 :: user_mapping where
  "user5_team9_org2 = \<lparr>user_id = 5, team_id = 9, org_id = 2\<rparr>"

definition self5_monday :: working_hours_row where
  "self5_monday =
     \<lparr>wh_type = Some ''self'', type_id = Some 5, week_day = ''monday'',
      start_time = ''10:00:00'', end_time = ''12:00:00'', timezone_offset = Some 0\<rparr>"

section \<open>The conversation segmenter\<close>

text \<open>
  A message event, with the two columns the pairing reads.  The direction is the string
  of the column; the data model allows \<^verbatim>\<open>'INCOMING'\<close> and \<^verbatim>\<open>'OUTGOING'\<close>.
\<close>

record message_event =
  direction :: string
  message_timestamp :: timestamp

text \<open>
  \<^verbatim>\<open>LAG(f, 1) OVER (PARTITION BY chat_id ORDER BY message_timestamp)\<close> at row \<open>i\<close> of
  the ordered partition: the value of the row before, \<^verbatim>\<open>NULL\<close> at the first row.
\<close>

definition LAG :: "('a \<Rightarrow> 'b) \<Rightarrow> 'a list \<Rightarrow> nat \<Rightarrow> 'b option" where
  "LAG f rows i = (if i = 0 then None else Some (f (rows ! (i - 1))))"

text \<open>
  The rows of \<^verbatim>\<open>events_with_lag\<close> for the events of one chat: each event of the ordered
  partition with its \<^verbatim>\<open>prev_direction\<close> and \<^verbatim>\<open>prev_message_timestamp\<close>.
\<close>

definition events_with_lag ::
  "message_event list \<Rightarrow> (message_event \<times> string option \<times> timestamp option) list" where
  "events_with_lag events =
     (let ordered = sort_key message_timestamp events
      in map (\<lambda>i. (ordered ! i, LAG direction ordered i, LAG message_timestamp ordered i))
           [0..<length ordered])"


text \<open>
  \<^verbatim>\<open>COUNTIF(direction = 'OUTGOING' AND prev_direction = 'OUTGOING') AS follow_up_count\<close>
  in \<^verbatim>\<open>conversation_summary_merge.sql\<close> and \<^verbatim>\<open>conversation_summary_merge_FIXED.sql\<close>.
\<close>

definition follow_up_count :: "message_event list \<Rightarrow> nat" where
  "follow_up_count events =
     length (filter (\<lambda>(e, prev_direction, prev_message_timestamp).
                       direction e = ''OUTGOING'' \<and> prev_direction = Some ''OUTGOING'')
               (events_with_lag events))"

text \<open>
  \<^verbatim>\<open>number_of_follow_ups\<close> in the query that \<^verbatim>\<open>generateMergeQueryWithWorkingHours\<close> builds:
  \<^verbatim>\<open>SUM(CASE WHEN direction = 'OUTGOING' THEN 1 ELSE 0 END)\<close> over the group; and in
  the query of \<^verbatim>\<open>generateSimpleMergeQuery\<close>: the constant 0.
\<close>

definition number_of_follow_ups_working_hours :: "message_event list \<Rightarrow> nat" where
  "number_of_follow_ups_working_hours events =
     sum_list (map (\<lambda>e. if direction e = ''OUTGOING'' then 1 else 0) events)"

definition number_of_follow_ups_simple :: "message_event list \<Rightarrow> nat" where
  "number_of_follow_ups_simple events = 0"




text \<open>
  In the words of the specification: the number of positions \<open>i > 0\<close> of a sequence at
  which the event before has direction \<open>a\<close> and the event at \<open>i\<close> has direction \<open>b\<close>.
\<close>

definition adjacent_count :: "string \<Rightarrow> string \<Rightarrow> message_event list \<Rightarrow> nat" where
  "adjacent_count a b evs =
     length (filter (\<lambda>i. direction (evs ! (i - 1)) = a \<and> direction (evs ! i) = b)
               [1..<length evs])"

definition msg :: "string \<Rightarrow> timestamp \<Rightarrow> message_event" where
  "msg d t = \<lparr>direction = d, message_timestamp = t\<rparr>"








section \<open>The metric aggregator\<close>

text \<open>\<^verbatim>\<open>COALESCE(x, d)\<close> and \<^verbatim>\<open>AVG\<close>, which skips \<^verbatim>\<open>NULL\<close> and is \<^verbatim>\<open>NULL\<close> when nothing is left.
  The average is taken in exact arithmetic.\<close>

definition COALESCE :: "'a option \<Rightarrow> 'a \<Rightarrow> 'a" where
  "COALESCE x d = (case x of None \<Rightarrow> d | Some v \<Rightarrow> v)"

definition AVG :: "real option list \<Rightarrow> real option" where
  "AVG xs =
     (let ys = concat (map (\<lambda>x. case x of None \<Rightarrow> [] | Some y \<Rightarrow> [y]) xs)
      in if ys = [] then None else Some (sum_list ys / real (length ys)))"

text \<open>
  The fourteen arguments the merge statements pass to the function:
  \<^verbatim>\<open>COALESCE(wh.monday_start, TIME(0, 0, 0))\<close> and so on, where \<open>wh\<close> is the row of
  \<^verbatim>\<open>user_working_hours\<close> the \<^verbatim>\<open>LEFT JOIN\<close> found, if any.
\<close>

definition udf_arguments :: "schedule option \<Rightarrow> schedule" where
  "udf_arguments wh =
     \<lparr>monday_start = Some (COALESCE (Option.bind wh monday_start) (TIME 0 0 0)),
      monday_end = Some (COALESCE (Option.bind wh monday_end) (TIME 0 0 0)),
      tuesday_start = Some (COALESCE (Option.bind wh tuesday_start) (TIME 0 0 0)),
      tuesday_end = Some (COALESCE (Option.bind wh tuesday_end) (TIME 0 0 0)),
      wednesday_start = Some (COALESCE (Option.bind wh wednesday_start) (TIME 0 0 0)),
      wednesday_end = Some (COALESCE (Option.bind wh wednesday_end) (TIME 0 0 0)),
      thursday_start = Some (COALESCE (Option.bind wh thursday_start) (TIME 0 0 0)),
      thursday_end = Some (COALESCE (Option.bind wh thursday_end) (TIME 0 0 0)),
      friday_start = Some (COALESCE (Option.bind wh friday_start) (TIME 0 0 0)),
      friday_end = Some (COALESCE (Option.bind wh friday_end) (TIME 0 0 0)),
      saturday_start = Some (COALESCE (Option.bind wh saturday_start) (TIME 0 0 0)),
      saturday_end = Some (COALESCE (Option.bind wh saturday_end) (TIME 0 0 0)),
      sunday_start = Some (COALESCE (Option.bind wh sunday_start) (TIME 0 0 0)),
      sunday_end = Some (COALESCE (Option.bind wh sunday_end) (TIME 0 0 0))\<rparr>"

text \<open>
  A response event joined with its working hours:
  \<open>(prev_ts, cur_ts, wh)\<close> for \<^verbatim>\<open>re.prev_message_timestamp\<close>, \<^verbatim>\<open>re.message_timestamp\<close> and
  the joined row.  The function deployed under the name
  \<^verbatim>\<open>calculate_working_seconds_sql\<close> is the parameter \<open>udf\<close>.
\<close>

type_synonym response_row = "timestamp \<times> timestamp \<times> schedule option"

definition working_seconds_of ::
  "(timestamp \<Rightarrow> timestamp \<Rightarrow> schedule \<Rightarrow> int) \<Rightarrow> response_row \<Rightarrow> int" where
  "working_seconds_of udf re =
     (case re of (prev_ts, cur_ts, wh) \<Rightarrow> udf prev_ts cur_ts (udf_arguments wh))"

text \<open>
  \<^verbatim>\<open>average_response_time\<close> of \<^verbatim>\<open>conversation_summary_merge.sql\<close>: the \<^verbatim>\<open>AVG\<close> of the
  function over the response events of the chat.
\<close>

definition average_response_time ::
  "(timestamp \<Rightarrow> timestamp \<Rightarrow> schedule \<Rightarrow> int) \<Rightarrow> response_row list \<Rightarrow> real option" where
  "average_response_time udf res =
     AVG (map (\<lambda>re. Some (real_of_int (working_seconds_of udf re))) res)"

text \<open>
  \<^verbatim>\<open>conversation_summary_merge_FIXED.sql\<close>: \<^verbatim>\<open>response_time_by_chat\<close> averages
  \<^verbatim>\<open>CASE WHEN working_seconds > 0 THEN working_seconds END\<close>, and the final
  \<^verbatim>\<open>SELECT\<close> emits \<^verbatim>\<open>COALESCE(rt.average_response_time, 0)\<close>.  A key without response
  events has no row in \<^verbatim>\<open>response_time_by_chat\<close>, which the \<^verbatim>\<open>LEFT JOIN\<close> turns into \<^verbatim>\<open>NULL\<close>
  as well.
\<close>

definition response_time_by_chat ::
  "(timestamp \<Rightarrow> timestamp \<Rightarrow> schedule \<Rightarrow> int) \<Rightarrow> response_row list \<Rightarrow> real option" where
  "response_time_by_chat udf res =
     AVG (map (\<lambda>re. if working_seconds_of udf re > 0
                     then Some (real_of_int (working_seconds_of udf re)) else None) res)"

definition average_response_time_FIXED ::
  "(timestamp \<Rightarrow> timestamp \<Rightarrow> schedule \<Rightarrow> int) \<Rightarrow> response_row list \<Rightarrow> real" where
  "average_response_time_FIXED udf res = COALESCE (response_time_by_chat udf res) 0"

text \<open>
  In the words of the specification: the mean of the values that are not zero, and 0
  when there is none.
\<close>

definition mean_ignoring_zeros :: "int list \<Rightarrow> real" where
  "mean_ignoring_zeros vals =
     (let nz = filter (\<lambda>v. v \<noteq> 0) vals
      in if nz = [] then 0 else real_of_int (sum_list nz) / real (length nz))"

section \<open>Properties of the working-seconds UDF\<close>

lemmas udf_eval =
  calculate_working_seconds_sql_def calculate_working_seconds_sql_kolkata_def
  calculate_working_seconds_sql_v0_def working_seconds_udf_def UTC_def Asia_Kolkata_def
  DATE_def TIME_of_def DAYOFWEEK_def TIME_def at_utc_def weekdays_9_to_18_def
  closed_all_week_def day_configured_def day_seconds_def TIMESTAMP_DIFF_SECOND_def
  day_window_def all_days_closed_def

lemma DAYOFWEEK_range:
  "DAYOFWEEK tz ts = 1 \<or> DAYOFWEEK tz ts = 2 \<or> DAYOFWEEK tz ts = 3 \<or> DAYOFWEEK tz ts = 4
   \<or> DAYOFWEEK tz ts = 5 \<or> DAYOFWEEK tz ts = 6 \<or> DAYOFWEEK tz ts = 7"
  unfolding DAYOFWEEK_def by presburger

text \<open>
  The seven branches read as one: the function looks at the window of the weekday of
  the start instant only.
\<close>

lemma udf_char:
  "working_seconds_udf tz chk t0 t1 S =
     (if t0 < t1 \<and> DATE tz t0 = DATE tz t1
         \<and> day_configured chk (fst (day_window S (DAYOFWEEK tz t0)))
              (snd (day_window S (DAYOFWEEK tz t0)))
      then day_seconds tz t0 t1 (the (fst (day_window S (DAYOFWEEK tz t0))))
             (the (snd (day_window S (DAYOFWEEK tz t0))))
      else 0)"
proof -
  consider "DAYOFWEEK tz t0 = 1" | "DAYOFWEEK tz t0 = 2" | "DAYOFWEEK tz t0 = 3"
    | "DAYOFWEEK tz t0 = 4" | "DAYOFWEEK tz t0 = 5" | "DAYOFWEEK tz t0 = 6"
    | "DAYOFWEEK tz t0 = 7"
    using DAYOFWEEK_range [of tz t0] by blast
  then show ?thesis
    by cases (simp_all add: working_seconds_udf_def day_window_def)
qed

lemma diff_nonneg: "s \<le> e \<Longrightarrow> 0 \<le> TIMESTAMP_DIFF_SECOND e s"
  by (simp add: TIMESTAMP_DIFF_SECOND_def)

lemma diff_le: "s \<le> e \<Longrightarrow> TIMESTAMP_DIFF_SECOND e s * 1000000 \<le> e - s"
  by (simp add: TIMESTAMP_DIFF_SECOND_def)

lemma diff_mono:
  "s \<le> e \<Longrightarrow> e \<le> e' \<Longrightarrow> TIMESTAMP_DIFF_SECOND e s \<le> TIMESTAMP_DIFF_SECOND e' s"
  by (simp add: TIMESTAMP_DIFF_SECOND_def zdiv_mono1)

lemma same_day_TIME_less:
  assumes "DATE tz t0 = DATE tz t1" and "t0 < t1"
  shows "TIME_of tz t0 < TIME_of tz t1"
proof -
  have "t0 + tz = 86400000000 * DATE tz t0 + TIME_of tz t0"
    and "t1 + tz = 86400000000 * DATE tz t1 + TIME_of tz t1"
    unfolding DATE_def TIME_of_def by simp_all
  with assms show ?thesis by linarith
qed

lemma day_seconds_cases:
  "day_seconds tz t0 t1 a b = 0 \<or> day_seconds tz t0 t1 a b = TIMESTAMP_DIFF_SECOND t1 t0"
  by (simp add: day_seconds_def)

lemma udf_cases:
  "working_seconds_udf tz chk t0 t1 S = 0
   \<or> working_seconds_udf tz chk t0 t1 S = TIMESTAMP_DIFF_SECOND t1 t0 \<and> t0 < t1"
  using day_seconds_cases [of tz t0 t1] by (simp add: udf_char)

lemma udf_nonneg: "0 \<le> working_seconds_udf tz chk t0 t1 S"
  using udf_cases [of tz chk t0 t1 S] diff_nonneg [of t0 t1] by auto

lemma udf_le_diff:
  "t0 \<le> t1 \<Longrightarrow> working_seconds_udf tz chk t0 t1 S \<le> TIMESTAMP_DIFF_SECOND t1 t0"
  using udf_cases [of tz chk t0 t1 S] diff_nonneg [of t0 t1] by auto

lemma udf_cross_day:
  "DATE tz t0 \<noteq> DATE tz t1 \<Longrightarrow> working_seconds_udf tz chk t0 t1 S = 0"
  by (simp add: udf_char)

lemma udf_closed:
  assumes "all_days_closed S"
  shows "working_seconds_udf tz chk t0 t1 S = 0"
proof (cases "t0 < t1 \<and> DATE tz t0 = DATE tz t1")
  case False
  then show ?thesis by (auto simp: udf_char)
next
  case True
  then have "0 \<le> TIME_of tz t0" and "TIME_of tz t0 < TIME_of tz t1"
    using same_day_TIME_less [of tz t0 t1] by (simp_all add: TIME_of_def)
  then have pos: "0 < TIME_of tz t1" by simp
  have w: "day_window S (DAYOFWEEK tz t0) = (Some (TIME 0 0 0), Some (TIME 0 0 0))"
    using assms by (simp add: all_days_closed_def day_window_def)
  show ?thesis using pos
    by (simp add: udf_char w day_seconds_def day_configured_def TIME_def)
qed

lemma udf_mono_same_day:
  assumes "t0 \<le> t1" and "t1 \<le> t2" and "DATE tz t2 = DATE tz t0"
    and "\<forall>e. snd (day_window S (DAYOFWEEK tz t0)) = Some e \<longrightarrow> TIME_of tz t2 \<le> e"
  shows "working_seconds_udf tz chk t0 t1 S \<le> working_seconds_udf tz chk t0 t2 S"
proof (cases "working_seconds_udf tz chk t0 t1 S = 0")
  case True
  then show ?thesis by (simp add: udf_nonneg)
next
  case False
  let ?w = "day_window S (DAYOFWEEK tz t0)"
  from False have lt: "t0 < t1" and conf: "day_configured chk (fst ?w) (snd ?w)"
    and st: "\<not> TIME_of tz t0 < the (fst ?w)"
    by (auto simp: udf_char day_seconds_def split: if_splits)
  from conf obtain e where e: "snd ?w = Some e" by (auto simp: day_configured_def)
  with assms(4) have "TIME_of tz t2 \<le> e" by blast
  with lt assms conf st e
  have "working_seconds_udf tz chk t0 t2 S = TIMESTAMP_DIFF_SECOND t2 t0"
    by (simp add: udf_char day_seconds_def)
  moreover have "working_seconds_udf tz chk t0 t1 S \<le> TIMESTAMP_DIFF_SECOND t1 t0"
    using assms(1) by (rule udf_le_diff)
  moreover have "TIMESTAMP_DIFF_SECOND t1 t0 \<le> TIMESTAMP_DIFF_SECOND t2 t0"
    using assms(1,2) by (rule diff_mono)
  ultimately show ?thesis by simp
qed

text \<open>
  Scenario S1 of the specification: five minutes inside Monday's window count in full.
\<close>

lemma S1_within_day:
  "calculate_working_seconds_sql (at_utc 20094 10 0 0) (at_utc 20094 10 5 0) weekdays_9_to_18
     = 300"
  by (simp add: udf_eval)

text \<open>
  Claim C1.  The specification expects 3600 working seconds between Saturday 10:00 UTC
  and the following Monday 10:00 UTC under a Monday-to-Friday 09:00 to 18:00 schedule
  (the hour from 09:00 to 10:00 on Monday).  The function does not walk the days: its
  branch for two instants on different civil days returns 0, whatever the schedule.
  The theorem evaluates the function at Saturday 2025-01-04 10:00 and Monday 2025-01-06
  10:00; the result is 0, not 3600.
\<close>

theorem S3_cross_day_returns_zero:
  "calculate_working_seconds_sql (at_utc 20092 10 0 0) (at_utc 20094 10 0 0) S = 0
   \<and> calculate_working_seconds_sql_v0 (at_utc 20092 10 0 0) (at_utc 20094 10 0 0) S = 0
   \<and> calculate_working_seconds_sql_kolkata (at_utc 20092 10 0 0) (at_utc 20094 10 0 0) S = 0"
proof -
  have "DATE UTC (at_utc 20092 10 0 0) \<noteq> DATE UTC (at_utc 20094 10 0 0)"
    and "DATE Asia_Kolkata (at_utc 20092 10 0 0) \<noteq> DATE Asia_Kolkata (at_utc 20094 10 0 0)"
    by (simp_all add: DATE_def UTC_def Asia_Kolkata_def at_utc_def TIME_def)
  then show ?thesis
    by (simp add: calculate_working_seconds_sql_def calculate_working_seconds_sql_v0_def
        calculate_working_seconds_sql_kolkata_def udf_cross_day)
qed

text \<open>
  Claim C2, as stated (extending the right end of the interval never decreases the
  result), fails: from Monday 10:00 the function counts 300 seconds up to 10:05 and 0
  seconds up to 19:00, because an interval that ends after the day's end time is not
  counted at all.
\<close>

theorem monotonicity_counterexample:
  "at_utc 20094 10 0 0 \<le> at_utc 20094 10 5 0 \<and> at_utc 20094 10 5 0 \<le> at_utc 20094 19 0 0
   \<and> \<not> (calculate_working_seconds_sql (at_utc 20094 10 0 0) (at_utc 20094 19 0 0)
            weekdays_9_to_18
          \<ge> calculate_working_seconds_sql (at_utc 20094 10 0 0) (at_utc 20094 10 5 0)
               weekdays_9_to_18)"
  by (simp add: udf_eval)

text \<open>
  Claim C2, amended.  For every schedule and all instants \<open>t0 \<le> t1 \<le> t2\<close> such that
  \<open>t2\<close> is on the civil day of \<open>t0\<close> and its time of day is not after the end time
  configured for that weekday, the result for \<open>[t0, t2]\<close> is at least the result for
  \<open>[t0, t1]\<close>.
\<close>

theorem working_seconds_monotone_within_day:
  assumes "t0 \<le> t1" and "t1 \<le> t2" and "DATE UTC t2 = DATE UTC t0"
    and "\<forall>e. snd (day_window S (DAYOFWEEK UTC t0)) = Some e \<longrightarrow> TIME_of UTC t2 \<le> e"
  shows "calculate_working_seconds_sql t0 t1 S \<le> calculate_working_seconds_sql t0 t2 S"
  unfolding calculate_working_seconds_sql_def using assms by (rule udf_mono_same_day)

theorem working_seconds_monotone_within_day_witness:
  "at_utc 20094 10 0 0 \<le> at_utc 20094 10 5 0 \<and> at_utc 20094 10 5 0 \<le> at_utc 20094 17 0 0
   \<and> DATE UTC (at_utc 20094 17 0 0) = DATE UTC (at_utc 20094 10 0 0)
   \<and> snd (day_window weekdays_9_to_18 (DAYOFWEEK UTC (at_utc 20094 10 0 0)))
       = Some (TIME 18 0 0)
   \<and> TIME_of UTC (at_utc 20094 17 0 0) \<le> TIME 18 0 0
   \<and> calculate_working_seconds_sql (at_utc 20094 10 0 0) (at_utc 20094 10 5 0)
        weekdays_9_to_18
      \<le> calculate_working_seconds_sql (at_utc 20094 10 0 0) (at_utc 20094 17 0 0)
           weekdays_9_to_18"
proof -
  have h1: "at_utc 20094 10 0 0 \<le> at_utc 20094 10 5 0"
    and h2: "at_utc 20094 10 5 0 \<le> at_utc 20094 17 0 0"
    and h3: "DATE UTC (at_utc 20094 17 0 0) = DATE UTC (at_utc 20094 10 0 0)"
    and h4: "\<forall>e. snd (day_window weekdays_9_to_18 (DAYOFWEEK UTC (at_utc 20094 10 0 0)))
                  = Some e \<longrightarrow> TIME_of UTC (at_utc 20094 17 0 0) \<le> e"
    by (simp_all add: udf_eval)
  have h5: "snd (day_window weekdays_9_to_18 (DAYOFWEEK UTC (at_utc 20094 10 0 0)))
              = Some (TIME 18 0 0)"
    and h6: "TIME_of UTC (at_utc 20094 17 0 0) \<le> TIME 18 0 0"
    by (simp_all add: udf_eval)
  from working_seconds_monotone_within_day [OF h1 h2 h3 h4] h1 h2 h3 h5 h6
  show ?thesis by blast
qed

text \<open>
  Claim C7.  If the schedule gives every weekday the start and end time \<^verbatim>\<open>00:00:00\<close>,
  the function returns 0 for every pair of instants.  This holds for the three texts of
  the function, also for the oldest one, which has no closed-day test: there an interval
  within one day ends after \<^verbatim>\<open>00:00:00\<close>, hence after the end time.
\<close>

theorem closed_schedule_zero:
  assumes "all_days_closed S"
  shows "calculate_working_seconds_sql t0 t1 S = 0
    \<and> calculate_working_seconds_sql_kolkata t0 t1 S = 0
    \<and> calculate_working_seconds_sql_v0 t0 t1 S = 0"
  using assms
  by (simp add: calculate_working_seconds_sql_def calculate_working_seconds_sql_kolkata_def
      calculate_working_seconds_sql_v0_def udf_closed)

theorem closed_schedule_zero_witness:
  "all_days_closed closed_all_week
   \<and> calculate_working_seconds_sql (at_utc 20094 10 0 0) (at_utc 20094 10 5 0) closed_all_week
       = 0
   \<and> calculate_working_seconds_sql_kolkata (at_utc 20094 10 0 0) (at_utc 20094 10 5 0)
       closed_all_week = 0
   \<and> calculate_working_seconds_sql_v0 (at_utc 20094 10 0 0) (at_utc 20094 10 5 0)
       closed_all_week = 0"
proof -
  have h: "all_days_closed closed_all_week"
    by (simp add: all_days_closed_def closed_all_week_def)
  from closed_schedule_zero [OF h, of "at_utc 20094 10 0 0" "at_utc 20094 10 5 0"] h
  show ?thesis by blast
qed

text \<open>
  Claim C8, as stated (for all instants \<open>t0\<close>, \<open>t1\<close> the result is at most \<open>t1 - t0\<close>),
  fails when \<open>t1\<close> is before \<open>t0\<close>: the function returns 0 there, and 0 exceeds the
  negative difference.  Instants are in microseconds, the result in seconds.
\<close>

theorem bounded_counterexample:
  "\<not> (0 \<le> calculate_working_seconds_sql (at_utc 20094 10 5 0) (at_utc 20094 10 0 0)
             weekdays_9_to_18
      \<and> calculate_working_seconds_sql (at_utc 20094 10 5 0) (at_utc 20094 10 0 0)
            weekdays_9_to_18 * 1000000
          \<le> at_utc 20094 10 0 0 - at_utc 20094 10 5 0)"
  by (simp add: udf_eval)

text \<open>
  Claim C8, amended.  For every schedule and all instants \<open>t0 \<le> t1\<close>, the result is not
  negative and not more than the elapsed time \<open>t1 - t0\<close>.
\<close>

theorem working_seconds_bounded:
  assumes "t0 \<le> t1"
  shows "0 \<le> calculate_working_seconds_sql t0 t1 S
    \<and> calculate_working_seconds_sql t0 t1 S * 1000000 \<le> t1 - t0"
proof -
  have "calculate_working_seconds_sql t0 t1 S \<le> TIMESTAMP_DIFF_SECOND t1 t0"
    unfolding calculate_working_seconds_sql_def using assms by (rule udf_le_diff)
  moreover have "TIMESTAMP_DIFF_SECOND t1 t0 * 1000000 \<le> t1 - t0"
    using assms by (rule diff_le)
  ultimately show ?thesis
    by (simp add: calculate_working_seconds_sql_def udf_nonneg)
qed

theorem working_seconds_bounded_witness:
  "at_utc 20094 10 0 0 \<le> at_utc 20094 10 5 0
   \<and> 0 \<le> calculate_working_seconds_sql (at_utc 20094 10 0 0) (at_utc 20094 10 5 0)
            weekdays_9_to_18
   \<and> calculate_working_seconds_sql (at_utc 20094 10 0 0) (at_utc 20094 10 5 0)
        weekdays_9_to_18 * 1000000
      \<le> at_utc 20094 10 5 0 - at_utc 20094 10 0 0"
proof -
  have h: "at_utc 20094 10 0 0 \<le> at_utc 20094 10 5 0"
    by (simp add: at_utc_def TIME_def)
  from working_seconds_bounded [OF h, of weekdays_9_to_18] h show ?thesis by blast
qed

text \<open>
  Claim C10.  For all instants \<open>t0 < t1\<close> and every schedule, the function returns either
  0 or the whole span \<^verbatim>\<open>TIMESTAMP_DIFF(t1, t0, SECOND)\<close>, never a value in between.  This
  holds for the three texts of the function.
\<close>

theorem all_or_nothing:
  assumes "t0 < t1"
  shows "(calculate_working_seconds_sql t0 t1 S = 0
          \<or> calculate_working_seconds_sql t0 t1 S = TIMESTAMP_DIFF_SECOND t1 t0)
    \<and> (calculate_working_seconds_sql_kolkata t0 t1 S = 0
          \<or> calculate_working_seconds_sql_kolkata t0 t1 S = TIMESTAMP_DIFF_SECOND t1 t0)
    \<and> (calculate_working_seconds_sql_v0 t0 t1 S = 0
          \<or> calculate_working_seconds_sql_v0 t0 t1 S = TIMESTAMP_DIFF_SECOND t1 t0)"
  using udf_cases [of UTC True t0 t1 S] udf_cases [of Asia_Kolkata True t0 t1 S]
    udf_cases [of UTC False t0 t1 S]
  by (auto simp: calculate_working_seconds_sql_def calculate_working_seconds_sql_kolkata_def
      calculate_working_seconds_sql_v0_def)

theorem all_or_nothing_witness:
  "at_utc 20094 10 0 0 < at_utc 20094 10 5 0
   \<and> (calculate_working_seconds_sql (at_utc 20094 10 0 0) (at_utc 20094 10 5 0)
         weekdays_9_to_18 = 0
       \<or> calculate_working_seconds_sql (at_utc 20094 10 0 0) (at_utc 20094 10 5 0)
           weekdays_9_to_18
          = TIMESTAMP_DIFF_SECOND (at_utc 20094 10 5 0) (at_utc 20094 10 0 0))"
proof -
  have h: "at_utc 20094 10 0 0 < at_utc 20094 10 5 0"
    by (simp add: at_utc_def TIME_def)
  from all_or_nothing [OF h, of weekdays_9_to_18] h show ?thesis by blast
qed

section \<open>Properties of the schedule resolver\<close>

lemma filter_self_user:
  "filter (\<lambda>wh. wh_type wh = Some ''self'' \<and> type_id wh = Some u) W
     = filter (\<lambda>wh. type_id wh = Some u) (self_entries W)"
  by (simp add: self_entries_def conj_commute)

lemma self_entry_filter:
  assumes "\<exists>wh \<in> set W. wh_type wh = Some ''self'' \<and> type_id wh = Some u"
  shows "filter (\<lambda>wh. type_id wh = Some u) (self_entries W) \<noteq> []"
  using assms by (auto simp: self_entries_def filter_empty_conv)

lemma resolve_user_id: "user_id (resolve_binding W m) = user_id m"
  by (simp add: resolve_binding_def Let_def)

lemma resolve_self:
  assumes "filter (\<lambda>wh. type_id wh = Some (user_id m)) (self_entries W) \<noteq> []"
  shows "resolve_binding W m =
     \<lparr>user_id = user_id m, team_id = team_id m, org_id = org_id m, cfg_type = ''self'',
      working_hours = filter (\<lambda>wh. type_id wh = Some (user_id m)) (self_entries W)\<rparr>"
  using assms by (simp add: resolve_binding_def filter_self_user Let_def)

text \<open>
  \<^verbatim>\<open>getAllWorkingHoursConfig\<close> resolves the team entries by the team of the binding.
\<close>

lemma resolve_team:
  assumes "filter (\<lambda>wh. wh_type wh = Some ''self'' \<and> type_id wh = Some (user_id m)) W = []"
    and "filter (\<lambda>wh. wh_type wh = Some ''team'' \<and> type_id wh = Some (team_id m)) W \<noteq> []"
  shows "cfg_type (resolve_binding W m) = ''team''
    \<and> working_hours (resolve_binding W m)
        = filter (\<lambda>wh. wh_type wh = Some ''team'' \<and> type_id wh = Some (team_id m)) W"
  using assms by (simp add: resolve_binding_def Let_def)

lemma getWorkingHoursConfig_self:
  assumes "filter (\<lambda>wh. type_id wh = Some u) (self_entries W) \<noteq> []"
  shows "getWorkingHoursConfig W M u org =
     \<lparr>source = ''self'', workingHours = filter (\<lambda>wh. type_id wh = Some u) (self_entries W)\<rparr>"
  using assms by (simp add: getWorkingHoursConfig_def filter_self_user Let_def)

text \<open>
  \<^verbatim>\<open>getWorkingHoursConfig\<close> takes as team entries the entries of scope \<^verbatim>\<open>'team'\<close> whose
  identifier is the user's.
\<close>

lemma getWorkingHoursConfig_team:
  assumes "filter (\<lambda>wh. wh_type wh = Some ''self'' \<and> type_id wh = Some u) W = []"
    and "filter (\<lambda>wh. wh_type wh = Some ''team'' \<and> type_id wh = Some u) W \<noteq> []"
  shows "getWorkingHoursConfig W M u org =
     \<lparr>source = ''team'',
      workingHours = filter (\<lambda>wh. wh_type wh = Some ''team'' \<and> type_id wh = Some u) W\<rparr>"
  using assms by (simp add: getWorkingHoursConfig_def Let_def)

text \<open>
  What the loop emits for a user: nothing when no binding names the user, and otherwise the
  resolution of the first binding that does.
\<close>

lemma getAll_loop_filter:
  "filter (\<lambda>r. user_id r = u) (getAll_loop W ms results seen)
     = filter (\<lambda>r. user_id r = u) results
       @ (if u \<in> seen then []
          else case find (\<lambda>m. user_id m = u) ms of
                 None \<Rightarrow> []
               | Some m \<Rightarrow> [resolve_binding W m])"
proof (induction ms arbitrary: results seen)
  case Nil
  then show ?case by simp
next
  case (Cons m ms)
  then show ?case by (simp add: resolve_user_id)
qed

lemma getAll_filter:
  "filter (\<lambda>r. user_id r = u) (getAllWorkingHoursConfig W ms)
     = (case find (\<lambda>m. user_id m = u) ms of None \<Rightarrow> [] | Some m \<Rightarrow> [resolve_binding W m])"
  by (simp add: getAllWorkingHoursConfig_def getAll_loop_filter)

text \<open>
  Claim C3.  The claim says that, without self entries, both resolvers select the
  entries of scope \<^verbatim>\<open>'team'\<close> of the binding's team.  \<^verbatim>\<open>getAllWorkingHoursConfig\<close> does
  (lemma \<open>resolve_team\<close>).  \<^verbatim>\<open>getWorkingHoursConfig\<close> compares the identifier of a team
  entry with the user's identifier instead: for user 5 of team 9 and a table whose one entry
  is for team 9, it falls through to the default, while \<^verbatim>\<open>getAllWorkingHoursConfig\<close>
  returns the team entry.
\<close>

theorem team_filter_compares_user_id:
  "getWorkingHoursConfig [team9_monday] [user5_team9_org2] 5 2
     = \<lparr>source = ''default'', workingHours = default_working_hours None\<rparr>
   \<and> getAllWorkingHoursConfig [team9_monday] [user5_team9_org2]
     = [\<lparr>user_id = 5, team_id = 9, org_id = 2, cfg_type = ''team'',
          working_hours = [team9_monday]\<rparr>]"
  by (simp add: getWorkingHoursConfig_def getAllWorkingHoursConfig_def resolve_binding_def
      team9_monday_def user5_team9_org2_def)

text \<open>
  Claim C6.  If the table has a self entry for user \<open>u\<close>, the resolution for \<open>u\<close> depends
  on the self-scope entries only: two tables with the same self-scope entries (and any
  team, organisation or other entries) give the same result of \<^verbatim>\<open>getWorkingHoursConfig\<close>,
  tagged \<^verbatim>\<open>'self'\<close>, and the same objects for \<open>u\<close> in the result of
  \<^verbatim>\<open>getAllWorkingHoursConfig\<close>, all tagged \<^verbatim>\<open>'self'\<close>.
\<close>

theorem self_scope_priority:
  assumes "self_entries W1 = self_entries W2"
    and "\<exists>wh \<in> set W1. wh_type wh = Some ''self'' \<and> type_id wh = Some u"
  shows "getWorkingHoursConfig W1 M u org = getWorkingHoursConfig W2 M u org
    \<and> source (getWorkingHoursConfig W1 M u org) = ''self''
    \<and> filter (\<lambda>r. user_id r = u) (getAllWorkingHoursConfig W1 M)
        = filter (\<lambda>r. user_id r = u) (getAllWorkingHoursConfig W2 M)
    \<and> (\<forall>r \<in> set (getAllWorkingHoursConfig W1 M). user_id r = u \<longrightarrow> cfg_type r = ''self'')"
proof -
  have ne1: "filter (\<lambda>wh. type_id wh = Some u) (self_entries W1) \<noteq> []"
    using assms(2) by (rule self_entry_filter)
  then have ne2: "filter (\<lambda>wh. type_id wh = Some u) (self_entries W2) \<noteq> []"
    using assms(1) by simp
  have a: "getWorkingHoursConfig W1 M u org = getWorkingHoursConfig W2 M u org"
    using ne1 ne2 assms(1) by (simp add: getWorkingHoursConfig_self)
  have b: "source (getWorkingHoursConfig W1 M u org) = ''self''"
    using ne1 by (simp add: getWorkingHoursConfig_self)
  have r: "resolve_binding W1 m = resolve_binding W2 m
      \<and> cfg_type (resolve_binding W1 m) = ''self''"
    if "user_id m = u" for m
    using that ne1 ne2 assms(1) by (simp add: resolve_self)
  have c: "filter (\<lambda>r. user_id r = u) (getAllWorkingHoursConfig W1 M)
        = filter (\<lambda>r. user_id r = u) (getAllWorkingHoursConfig W2 M)"
    using r by (auto simp: getAll_filter split: option.splits dest: find_Some_iff [THEN iffD1])
  have d: "cfg_type x = ''self''"
    if "x \<in> set (getAllWorkingHoursConfig W1 M)" and "user_id x = u" for x
  proof -
    from that have "x \<in> set (filter (\<lambda>r. user_id r = u) (getAllWorkingHoursConfig W1 M))"
      by simp
    then have "x \<in> set (case find (\<lambda>m. user_id m = u) M of
                            None \<Rightarrow> [] | Some m \<Rightarrow> [resolve_binding W1 m])"
      by (simp only: getAll_filter)
    then obtain m where "find (\<lambda>m. user_id m = u) M = Some m" and "x = resolve_binding W1 m"
      by (cases "find (\<lambda>m. user_id m = u) M") auto
    then show ?thesis using r [of m] by (auto simp: find_Some_iff)
  qed
  from a b c d show ?thesis by blast
qed

theorem self_scope_priority_witness:
  "self_entries [self5_monday, team9_monday] = self_entries [self5_monday]
   \<and> (\<exists>wh \<in> set [self5_monday, team9_monday]. wh_type wh = Some ''self'' \<and> type_id wh = Some 5)
   \<and> getWorkingHoursConfig [self5_monday, team9_monday] [user5_team9_org2] 5 2
       = getWorkingHoursConfig [self5_monday] [user5_team9_org2] 5 2
   \<and> source (getWorkingHoursConfig [self5_monday, team9_monday] [user5_team9_org2] 5 2)
       = ''self''
   \<and> filter (\<lambda>r. user_id r = 5)
        (getAllWorkingHoursConfig [self5_monday, team9_monday] [user5_team9_org2])
       = filter (\<lambda>r. user_id r = 5)
           (getAllWorkingHoursConfig [self5_monday] [user5_team9_org2])"
proof -
  have h1: "self_entries [self5_monday, team9_monday] = self_entries [self5_monday]"
    by (simp add: self_entries_def self5_monday_def team9_monday_def)
  have h2: "\<exists>wh \<in> set [self5_monday, team9_monday].
              wh_type wh = Some ''self'' \<and> type_id wh = Some 5"
    by (simp add: self5_monday_def)
  from self_scope_priority [OF h1 h2, of "[user5_team9_org2]" 2] h1 h2
  show ?thesis by blast
qed

section \<open>Properties of the conversation segmenter\<close>

lemma length_filter_upt_from_1:
  assumes "\<not> P 0"
  shows "length (filter P [0..<n]) = length (filter P [1..<n])"
proof (cases n)
  case 0
  then show ?thesis by simp
next
  case (Suc k)
  then have "[0..<n] = 0 # [1..<n]" by (simp add: upt_rec)
  with assms show ?thesis by simp
qed

lemma length_filter_cong:
  "(\<And>x. x \<in> set xs \<Longrightarrow> P x = Q x) \<Longrightarrow> length (filter P xs) = length (filter Q xs)"
  by (induction xs) auto

text \<open>
  The rows of \<^verbatim>\<open>events_with_lag\<close> with direction \<open>b\<close> and previous direction \<open>a\<close> are as
  many as the adjacencies \<open>(a, b)\<close> of the ordered partition.
\<close>

lemma lag_rows_count:
  "length (filter (\<lambda>(e, prev_direction, prev_message_timestamp).
                       direction e = b \<and> prev_direction = Some a)
               (events_with_lag events))
     = adjacent_count a b (sort_key message_timestamp events)"
proof -
  let ?g = "sort_key message_timestamp events"
  let ?P = "\<lambda>i. direction (?g ! i) = b \<and> LAG direction ?g i = Some a"
  have "length (filter (\<lambda>(e, prev_direction, prev_message_timestamp).
                       direction e = b \<and> prev_direction = Some a)
               (events_with_lag events)) = length (filter ?P [0..<length ?g])"
    by (simp add: events_with_lag_def Let_def filter_map comp_def)
  also have "\<dots> = length (filter ?P [1..<length ?g])"
    by (rule length_filter_upt_from_1) (simp add: LAG_def)
  also have "\<dots> = adjacent_count a b ?g"
    unfolding adjacent_count_def
    by (rule length_filter_cong) (auto simp: LAG_def)
  finally show ?thesis .
qed


text \<open>
  The merge statements of \<^verbatim>\<open>conversation_summary_merge.sql\<close> and
  \<^verbatim>\<open>conversation_summary_merge_FIXED.sql\<close> count the adjacencies of two outgoing messages.
\<close>

lemma follow_up_count_adjacent:
  "follow_up_count events
     = adjacent_count ''OUTGOING'' ''OUTGOING'' (sort_key message_timestamp events)"
  unfolding follow_up_count_def by (rule lag_rows_count)


















text \<open>
  Claim C9.  The claim says that every query that emits a follow-up count counts the
  adjacencies of two outgoing messages.  The two merge statements do (lemma
  \<open>follow_up_count_adjacent\<close>).  The query of \<^verbatim>\<open>generateMergeQueryWithWorkingHours\<close>
  counts every outgoing message, and the query of \<^verbatim>\<open>generateSimpleMergeQuery\<close> emits 0:
  for an incoming message followed by two outgoing ones there is one adjacency, and the
  three queries give 1, 2 and 0.
\<close>

theorem generated_follow_up_counts_differ:
  "adjacent_count ''OUTGOING'' ''OUTGOING''
     (sort_key message_timestamp [msg ''INCOMING'' 1, msg ''OUTGOING'' 2, msg ''OUTGOING'' 3]) = 1
   \<and> follow_up_count [msg ''INCOMING'' 1, msg ''OUTGOING'' 2, msg ''OUTGOING'' 3] = 1
   \<and> number_of_follow_ups_working_hours
       [msg ''INCOMING'' 1, msg ''OUTGOING'' 2, msg ''OUTGOING'' 3] = 2
   \<and> number_of_follow_ups_simple
       [msg ''INCOMING'' 1, msg ''OUTGOING'' 2, msg ''OUTGOING'' 3] = 0"
  by code_simp

section \<open>Properties of the metric aggregator\<close>

lemma AVG_positive:
  "concat (map (\<lambda>x. case x of None \<Rightarrow> [] | Some y \<Rightarrow> [y])
             (map (\<lambda>re. if f re > 0 then Some (real_of_int (f re)) else None) res))
     = map real_of_int (filter (\<lambda>v. v > 0) (map f res))"
  by (induction res) auto

lemma sum_list_real_of_int: "sum_list (map real_of_int xs) = real_of_int (sum_list xs)"
  by (induction xs) auto

lemma filter_pos_nonzero:
  "\<forall>v \<in> set vs. (0::int) \<le> v \<Longrightarrow> filter (\<lambda>v. v > 0) vs = filter (\<lambda>v. v \<noteq> 0) vs"
  by (rule filter_cong) auto

text \<open>
  The statement of \<^verbatim>\<open>conversation_summary_merge_FIXED.sql\<close> emits the mean that ignores
  zeros, for any function that is never negative, hence for the three texts of the UDF.
\<close>

lemma FIXED_mean_general:
  assumes "\<forall>re \<in> set res. 0 \<le> working_seconds_of udf re"
  shows "average_response_time_FIXED udf res
     = mean_ignoring_zeros (map (working_seconds_of udf) res)"
proof -
  have "filter (\<lambda>v. v > 0) (map (working_seconds_of udf) res)
      = filter (\<lambda>v. v \<noteq> 0) (map (working_seconds_of udf) res)"
    using assms by (intro filter_pos_nonzero) simp
  then show ?thesis
    unfolding average_response_time_FIXED_def response_time_by_chat_def AVG_def
      mean_ignoring_zeros_def COALESCE_def Let_def AVG_positive
    by (simp add: sum_list_real_of_int)
qed

lemma FIXED_mean:
  "average_response_time_FIXED (working_seconds_udf tz chk) res
     = mean_ignoring_zeros (map (working_seconds_of (working_seconds_udf tz chk)) res)"
  by (rule FIXED_mean_general) (simp add: working_seconds_of_def udf_nonneg split: prod.splits)

text \<open>
  Claim C4.  The claim says that \<^verbatim>\<open>average_response_time\<close> is the mean of the working
  seconds of the response pairs that ignores the zero results, and 0 when there is none.
  \<^verbatim>\<open>conversation_summary_merge_FIXED.sql\<close> computes that (lemma \<open>FIXED_mean\<close>).
  \<^verbatim>\<open>conversation_summary_merge.sql\<close> averages every result: for one pair within Monday's
  hours (300 seconds) and one pair after hours (0 seconds) it emits 150 where the claim
  says 300 (with the UTC text of the UDF and with the Asia/Kolkata text alike), and for
  no pair at all it emits \<^verbatim>\<open>NULL\<close> where the claim says 0.
\<close>

theorem legacy_average_includes_zero_pairs:
  "average_response_time calculate_working_seconds_sql
     [(at_utc 20094 10 0 0, at_utc 20094 10 5 0, Some weekdays_9_to_18),
      (at_utc 20094 20 0 0, at_utc 20094 20 5 0, Some weekdays_9_to_18)] = Some 150
   \<and> mean_ignoring_zeros (map (working_seconds_of calculate_working_seconds_sql)
       [(at_utc 20094 10 0 0, at_utc 20094 10 5 0, Some weekdays_9_to_18),
        (at_utc 20094 20 0 0, at_utc 20094 20 5 0, Some weekdays_9_to_18)]) = 300
   \<and> average_response_time_FIXED calculate_working_seconds_sql
       [(at_utc 20094 10 0 0, at_utc 20094 10 5 0, Some weekdays_9_to_18),
        (at_utc 20094 20 0 0, at_utc 20094 20 5 0, Some weekdays_9_to_18)] = 300
   \<and> average_response_time calculate_working_seconds_sql_kolkata
       [(at_utc 20094 10 0 0, at_utc 20094 10 5 0, Some weekdays_9_to_18),
        (at_utc 20094 20 0 0, at_utc 20094 20 5 0, Some weekdays_9_to_18)] = Some 150
   \<and> average_response_time calculate_working_seconds_sql [] = None"
  by (simp add: average_response_time_def average_response_time_FIXED_def
      response_time_by_chat_def mean_ignoring_zeros_def AVG_def working_seconds_of_def
      udf_arguments_def COALESCE_def udf_eval)

end
